theory Spec2Isabelle
  imports Main
begin

section \<open>Python values used by the NUT adapter\<close>

text \<open>
  The status reported by the NUT server is a Python dict from variable names to
  texts. It is a map \<open>string \<rightharpoonup> string\<close>; \<open>status.get(k)\<close> is the
  application \<open>status k\<close>, which is \<open>None\<close> for a missing key. A character is a code
  point below 256.

  A value of type \<open>string option\<close> is a Python value that is either \<open>None\<close> or a
  \<open>str\<close>. Such a value is false in a condition when it is \<open>None\<close> or the empty
  text, and \<open>a or b\<close> is \<open>a\<close> when \<open>a\<close> is true in a condition and \<open>b\<close>
  otherwise, whatever \<open>b\<close> is.
\<close>

type_synonym status_map = "string \<rightharpoonup> string"

definition truthy :: "string option \<Rightarrow> bool" where
  "truthy v = (case v of None \<Rightarrow> False | Some s \<Rightarrow> s \<noteq> [])"

definition py_or :: "string option \<Rightarrow> string option \<Rightarrow> string option" where
  "py_or a b = (if truthy a then a else b)"

text \<open>
  \<open>str.lower\<close> on code points below 256: the letters A to Z and the capital
  letters of the Latin-1 block (192 to 222, without the multiplication sign 215)
  move up by 32; every other code point stays.
\<close>

definition lower_char :: "char \<Rightarrow> char" where
  "lower_char c =
     (let n = (of_char c :: nat)
      in if (65 \<le> n \<and> n \<le> 90) \<or> (192 \<le> n \<and> n \<le> 222 \<and> n \<noteq> 215)
         then char_of (n + 32) else c)"

definition lower :: "string \<Rightarrow> string" where
  "lower s = map lower_char s"

text \<open>\<open>s.count(c)\<close> for a one-character text \<open>c\<close>: the occurrences of that character.\<close>

definition count_char :: "string \<Rightarrow> char \<Rightarrow> nat" where
  "count_char s c = length (filter (\<lambda>x. x = c) s)"

text \<open>\<open>sep.join(xs)\<close>.\<close>

fun join :: "string \<Rightarrow> string list \<Rightarrow> string" where
  "join sep [] = []"
| "join sep [x] = x"
| "join sep (x # y # ys) = x @ sep @ join sep (y # ys)"

section \<open>Derivation helpers\<close>

definition manufacturer_from_status :: "status_map \<Rightarrow> string option" where
  "manufacturer_from_status status =
     py_or (py_or (py_or (status ''device.mfr'') (status ''ups.mfr''))
                  (status ''ups.vendorid''))
           (status ''driver.version.data'')"

definition model_from_status :: "status_map \<Rightarrow> string option" where
  "model_from_status status =
     py_or (py_or (status ''device.model'') (status ''ups.model''))
           (status ''ups.productid'')"

definition firmware_from_status :: "status_map \<Rightarrow> string option" where
  "firmware_from_status status =
     py_or (status ''ups.firmware'') (status ''ups.firmware.aux'')"

definition serial_from_status :: "status_map \<Rightarrow> string option" where
  "serial_from_status status =
     (let serial = py_or (status ''device.serial'') (status ''ups.serial'')
      in case serial of
           None \<Rightarrow> serial
         | Some s \<Rightarrow>
             if s \<noteq> [] \<and> (lower s = ''unknown'' \<or> count_char s CHR ''0'' = length s)
             then None else serial)"

text \<open>
  \<open>unique_id_group\<close> starts empty and receives, in this order, the manufacturer,
  the model and the serial, each only when it is true in a condition.
\<close>

definition append_if :: "string option \<Rightarrow> string list \<Rightarrow> string list" where
  "append_if v unique_id_group =
     (case v of
        None \<Rightarrow> unique_id_group
      | Some s \<Rightarrow> if s \<noteq> [] then unique_id_group @ [s] else unique_id_group)"

definition unique_id_from_status :: "status_map \<Rightarrow> string option" where
  "unique_id_from_status status =
     (let serial = serial_from_status status
      in if \<not> truthy serial then None
         else
           let manufacturer = manufacturer_from_status status;
               model = model_from_status status;
               unique_id_group = append_if serial (append_if model (append_if manufacturer []))
           in Some (join ''_'' unique_id_group))"

section \<open>The data fetcher\<close>

text \<open>
  The client of the NUT server is a library outside the adapter. The adapter sees two
  calls of it, each of which returns or raises: \<open>list_ups()\<close>, a dict from alias to
  description (an association list, since the adapter takes its first key), and
  \<open>list_vars(alias)\<close>, the status dict. The adapter names two of the exceptions the
  client raises; \<open>OtherError\<close> stands for any exception it does not name.
\<close>

datatype client_exc = PyNUTError | ConnectionResetError | OtherError

record PyNUTClient =
  list_ups :: "client_exc + (string \<times> string) list"
  list_vars :: "string option \<Rightarrow> client_exc + status_map"

text \<open>
  What an operation of the fetcher does to the outside: the requests it sends to the
  server and the records it logs, in the order in which they happen.
\<close>

datatype request = ListUps | ListVars "string option"

datatype level = ERROR | DEBUG

datatype event = Request request | Log level string

text \<open>
  The object of class \<open>PyNUTData\<close>. The attributes \<open>_host\<close>, \<open>_alias\<close>,
  \<open>_client\<close> and \<open>_status\<close> are the fields \<open>host\<close>, \<open>ups_alias\<close>, \<open>client\<close>
  and \<open>status\<close>; the last is also what the property \<open>status\<close> returns.
\<close>

record PyNUTData =
  host :: string
  ups_alias :: "string option"
  client :: PyNUTClient
  ups_list :: "(string \<times> string) list option"
  status :: "status_map option"

text \<open>
  The constructor. \<open>connect\<close> is the constructor of the client, called with the host,
  the port, the user name and the password (and the constants 5 and False).
\<close>

definition PyNUTData_init ::
  "(string \<Rightarrow> string \<Rightarrow> string option \<Rightarrow> string option \<Rightarrow> PyNUTClient) \<Rightarrow>
   string \<Rightarrow> string \<Rightarrow> string option \<Rightarrow> string option \<Rightarrow> string option \<Rightarrow> PyNUTData" where
  "PyNUTData_init connect host_arg port alias_arg username password =
     \<lparr>host = host_arg, ups_alias = alias_arg, client = connect host_arg port username password,
      ups_list = None, status = None\<rparr>"

text \<open>
  An operation returns the events it caused, the object as it left it, and either its
  value or the exception that left it.
\<close>

definition get_alias :: "PyNUTData \<Rightarrow> event list \<times> PyNUTData \<times> (client_exc + string option)" where
  "get_alias self =
     (case list_ups (client self) of
        Inl err \<Rightarrow>
          if err = PyNUTError
          then ([Request ListUps, Log ERROR ''Failure getting NUT ups alias, %s''], self, Inr None)
          else ([Request ListUps], self, Inl err)
      | Inr ups \<Rightarrow>
          (case ups of
             [] \<Rightarrow>
               ([Request ListUps, Log ERROR ''Empty list while getting NUT ups aliases''],
                self, Inr None)
           | (first_alias, description) # rest \<Rightarrow>
               ([Request ListUps], self\<lparr>ups_list := Some ups\<rparr>, Inr (Some first_alias))))"

definition get_status :: "PyNUTData \<Rightarrow> event list \<times> PyNUTData \<times> (client_exc + status_map option)" where
  "get_status self =
     (case (if ups_alias self = None
            then (case get_alias self of
                    (evs, self1, Inl err) \<Rightarrow> (evs, self1, Some err)
                  | (evs, self1, Inr a) \<Rightarrow> (evs, self1\<lparr>ups_alias := a\<rparr>, None))
            else ([], self, None)) of
        (evs, self1, Some err) \<Rightarrow> (evs, self1, Inl err)
      | (evs, self1, None) \<Rightarrow>
          (case list_vars (client self1) (ups_alias self1) of
             Inr vars \<Rightarrow> (evs @ [Request (ListVars (ups_alias self1))], self1, Inr (Some vars))
           | Inl err \<Rightarrow>
               if err = PyNUTError \<or> err = ConnectionResetError
               then (evs @ [Request (ListVars (ups_alias self1)),
                            Log DEBUG ''Error getting NUT vars for host %s: %s''],
                     self1, Inr None)
               else (evs @ [Request (ListVars (ups_alias self1))], self1, Inl err)))"

definition update :: "PyNUTData \<Rightarrow> event list \<times> PyNUTData \<times> client_exc option" where
  "update self =
     (case get_status self of
        (evs, self1, Inl err) \<Rightarrow> (evs, self1, Some err)
      | (evs, self1, Inr st) \<Rightarrow> (evs, self1\<lparr>status := st\<rparr>, None))"

text \<open>The requests among the events of an operation, in their order:\<close>

fun requests :: "event list \<Rightarrow> request list" where
  "requests [] = []"
| "requests (Request r # evs) = r # requests evs"
| "requests (Log l m # evs) = requests evs"

section \<open>The periodic update job\<close>

text \<open>
  \<open>async_update_data\<close>, the job that the coordinator runs each poll cycle. Under
  \<open>async_timeout.timeout(10)\<close> it waits for \<open>data.update\<close>, which runs in a worker
  of the host, and then looks at \<open>data.status\<close>, which is false in a condition when
  it is \<open>None\<close> or the empty dict. An exception that leaves \<open>data.update\<close> leaves
  the job.

  The only place where the job waits is the call of \<open>data.update\<close>, so the bound
  ends the job exactly when that call outlasts it; \<open>outlasts\<close> says whether it does.
  The job then raises \<open>TimeoutError\<close> and looks at no status. The call in the worker
  is not interrupted: the events and the object are those the update leaves when
  it ends.
\<close>

datatype job_exc = UpdateFailed string | Raised client_exc | TimeoutError

definition async_update_data ::
  "bool \<Rightarrow> PyNUTData \<Rightarrow> event list \<times> PyNUTData \<times> (job_exc + status_map)" where
  "async_update_data outlasts data =
     (case update data of
        (evs, data1, raised) \<Rightarrow>
          if outlasts then (evs, data1, Inl TimeoutError)
          else
            (case raised of
               Some err \<Rightarrow> (evs, data1, Inl (Raised err))
             | None \<Rightarrow>
                 (case status data1 of
                    None \<Rightarrow> (evs, data1, Inl (UpdateFailed ''Error fetching UPS state''))
                  | Some st \<Rightarrow>
                      if st = Map.empty
                      then (evs, data1, Inl (UpdateFailed ''Error fetching UPS state''))
                      else (evs, data1, Inr st))))"

section \<open>The lifecycle adapter\<close>

text \<open>
  The adapter imports the names of its keys, the default scan interval, the domain
  and the platforms from modules that are outside the files at hand. They are
  parameters here: one value of this record fixes all of them. \<open>'v\<close> is the type of
  the values of the options.
\<close>

record 'v nut_constants =
  CONF_ALIAS :: string
  CONF_HOST :: string
  CONF_PASSWORD :: string
  CONF_PORT :: string
  CONF_RESOURCES :: string
  CONF_SCAN_INTERVAL :: string
  CONF_USERNAME :: string
  DEFAULT_SCAN_INTERVAL :: 'v
  DOMAIN :: string
  PLATFORMS :: "string list"

text \<open>
  The config entry of the host: its id, the dict \<open>entry.data\<close> with the connection
  parameters (texts, handed on as they are) and the dict \<open>entry.options\<close>.
\<close>

record 'v ConfigEntry =
  entry_id :: string
  data :: "string \<rightharpoonup> string"
  options :: "string \<rightharpoonup> 'v"

text \<open>
  The coordinator as the adapter builds it, with the data of its first refresh. The
  update interval is the scan interval, in seconds.
\<close>

record 'v DataUpdateCoordinator =
  coordinator_name :: string
  update_interval :: 'v
  coordinator_data :: status_map

text \<open>
  The dict stored per entry; its keys, constants that the adapter imports and that
  differ from one another, are the fields. The callable that
  \<open>entry.add_update_listener\<close> returns is a number that identifies it.
\<close>

record 'v handle =
  COORDINATOR :: "'v DataUpdateCoordinator"
  PYNUT_DATA :: PyNUTData
  PYNUT_UNIQUE_ID :: string
  PYNUT_MANUFACTURER :: "string option"
  PYNUT_MODEL :: "string option"
  PYNUT_FIRMWARE :: "string option"
  UNDO_UPDATE_LISTENER :: nat

text \<open>
  Of the host, the dict \<open>hass.data.get(DOMAIN)\<close>: \<open>None\<close> while \<open>hass.data\<close> has no
  key \<open>DOMAIN\<close>, and otherwise the handles by entry id.
\<close>

record 'v HomeAssistant =
  domain_data :: "(string \<rightharpoonup> 'v handle) option"

text \<open>The calls to the host that an operation of the adapter makes, beside the fetcher's events:\<close>

datatype 'v host_event =
    Fetcher event
  | UpdateEntryOptions "string \<rightharpoonup> 'v"
  | AddUpdateListener
  | CallUndoListener nat
  | SetupPlatforms "string list"
  | UnloadPlatforms "string list"

datatype host_exc = KeyError string | ConfigEntryNotReady

text \<open>
  Modelled from the spec: \<open>hass.config_entries.async_update_entry\<close> is code of the
  host outside the files at hand. The entry holds a mutable options record that the
  adapter migrates; the call stores the options it is given in the entry.
\<close>

definition async_update_entry :: "'v ConfigEntry \<Rightarrow> (string \<rightharpoonup> 'v) \<Rightarrow> 'v ConfigEntry" where
  "async_update_entry entry new_options = entry\<lparr>options := new_options\<rparr>"

text \<open>
  Modelled from the spec: \<open>coordinator.async_config_entry_first_refresh\<close> is code of
  the host outside the files at hand. Setup performs one required refresh before it
  returns success; when this refresh fails, setup fails; otherwise the data of the
  coordinator is the status the job returned.
\<close>

definition async_config_entry_first_refresh :: "job_exc + status_map \<Rightarrow> host_exc + status_map" where
  "async_config_entry_first_refresh r =
     (case r of Inl err \<Rightarrow> Inl ConfigEntryNotReady | Inr st \<Rightarrow> Inr st)"

text \<open>The first lines of \<open>async_setup_entry\<close>: strip out the stale options.\<close>

definition strip_stale_options ::
  "'v nut_constants \<Rightarrow> 'v ConfigEntry \<Rightarrow> 'v host_event list \<times> 'v ConfigEntry" where
  "strip_stale_options k entry =
     (if options entry (CONF_RESOURCES k) \<noteq> None
      then
        let new_options = (\<lambda>key. if key \<noteq> CONF_RESOURCES k then options entry key else None)
        in ([UpdateEntryOptions new_options], async_update_entry entry new_options)
      else ([], entry))"

text \<open>
  \<open>async_setup_entry\<close>. \<open>connect\<close> is the constructor of the client,
  \<open>undo_listener\<close> the callable that \<open>entry.add_update_listener\<close> returns, and
  \<open>outlasts\<close> says whether the update of the first refresh outlasts the bound of the
  job. The result is the events, the host and the entry as setup leaves them, and the
  value \<open>True\<close> or the exception that ends setup.
\<close>

definition async_setup_entry ::
  "'v nut_constants \<Rightarrow> (string \<Rightarrow> string \<Rightarrow> string option \<Rightarrow> string option \<Rightarrow> PyNUTClient) \<Rightarrow> nat \<Rightarrow>
   bool \<Rightarrow> 'v HomeAssistant \<Rightarrow> 'v ConfigEntry \<Rightarrow>
   'v host_event list \<times> 'v HomeAssistant \<times> 'v ConfigEntry \<times> (host_exc + bool)" where
  "async_setup_entry k connect undo_listener outlasts hass entry =
     (case strip_stale_options k entry of
        (evs0, entry1) \<Rightarrow>
          let config = data entry1
          in (case config (CONF_HOST k) of
               None \<Rightarrow> (evs0, hass, entry1, Inl (KeyError (CONF_HOST k)))
             | Some host_value \<Rightarrow>
                 (case config (CONF_PORT k) of
                    None \<Rightarrow> (evs0, hass, entry1, Inl (KeyError (CONF_PORT k)))
                  | Some port \<Rightarrow>
                      let alias_value = config (CONF_ALIAS k);
                          username = config (CONF_USERNAME k);
                          password = config (CONF_PASSWORD k);
                          scan_interval =
                            (case options entry1 (CONF_SCAN_INTERVAL k) of
                               Some v \<Rightarrow> v
                             | None \<Rightarrow> DEFAULT_SCAN_INTERVAL k);
                          data0 = PyNUTData_init connect host_value port alias_value username password
                      in (case async_update_data outlasts data0 of
                           (evs1, data1, r) \<Rightarrow>
                             (case async_config_entry_first_refresh r of
                                Inl err \<Rightarrow> (evs0 @ map Fetcher evs1, hass, entry1, Inl err)
                              | Inr st \<Rightarrow>
                                  let coordinator =
                                        \<lparr>coordinator_name = ''NUT resource status'',
                                         update_interval = scan_interval,
                                         coordinator_data = st\<rparr>;
                                      unique_id =
                                        (case unique_id_from_status st of
                                           None \<Rightarrow> entry_id entry1
                                         | Some u \<Rightarrow> u);
                                      store =
                                        (case domain_data hass of
                                           None \<Rightarrow> Map.empty
                                         | Some m \<Rightarrow> m);
                                      h = \<lparr>COORDINATOR = coordinator,
                                           PYNUT_DATA = data1,
                                           PYNUT_UNIQUE_ID = unique_id,
                                           PYNUT_MANUFACTURER = manufacturer_from_status st,
                                           PYNUT_MODEL = model_from_status st,
                                           PYNUT_FIRMWARE = firmware_from_status st,
                                           UNDO_UPDATE_LISTENER = undo_listener\<rparr>
                                  in (evs0 @ map Fetcher evs1 @
                                        [Fetcher (Log DEBUG ''NUT Sensors Available: %s''),
                                         AddUpdateListener, SetupPlatforms (PLATFORMS k)],
                                      hass\<lparr>domain_data := Some (store(entry_id entry1 \<mapsto> h))\<rparr>,
                                      entry1, Inr True))))))"

text \<open>
  \<open>async_unload_entry\<close>. \<open>unload_ok\<close> is what the host's teardown of the platforms
  returns. A subscript of a dict with a key it does not have raises \<open>KeyError\<close>.
\<close>

definition async_unload_entry ::
  "'v nut_constants \<Rightarrow> bool \<Rightarrow> 'v HomeAssistant \<Rightarrow> 'v ConfigEntry \<Rightarrow>
   'v host_event list \<times> 'v HomeAssistant \<times> (host_exc + bool)" where
  "async_unload_entry k unload_ok hass entry =
     (case domain_data hass of
        None \<Rightarrow> ([UnloadPlatforms (PLATFORMS k)], hass, Inl (KeyError (DOMAIN k)))
      | Some store \<Rightarrow>
          (case store (entry_id entry) of
             None \<Rightarrow> ([UnloadPlatforms (PLATFORMS k)], hass, Inl (KeyError (entry_id entry)))
           | Some h \<Rightarrow>
               if unload_ok
               then ([UnloadPlatforms (PLATFORMS k), CallUndoListener (UNDO_UPDATE_LISTENER h)],
                     hass\<lparr>domain_data := Some (store(entry_id entry := None))\<rparr>, Inr unload_ok)
               else ([UnloadPlatforms (PLATFORMS k), CallUndoListener (UNDO_UPDATE_LISTENER h)],
                     hass, Inr unload_ok)))"

section \<open>Vocabulary of the specification for the helpers\<close>

text \<open>
  A value is non-empty when it is a text other than the empty one. The first
  non-empty value of a list of lookups, in the order of the list:
\<close>

fun first_nonempty :: "string option list \<Rightarrow> string option" where
  "first_nonempty [] = None"
| "first_nonempty (v # vs) = (if truthy v then v else first_nonempty vs)"

text \<open>The first lookup of a list that found its key, whatever the key is mapped to:\<close>

fun first_present :: "string option list \<Rightarrow> string option" where
  "first_present [] = None"
| "first_present (None # vs) = first_present vs"
| "first_present (Some s # vs) = Some s"

text \<open>The texts of the non-empty values of a list, in the order of the list:\<close>

definition nonempty_values :: "string option list \<Rightarrow> string list" where
  "nonempty_values vs = map the (filter truthy vs)"

text \<open>
  The texts of the values of a list that are present, that is, not \<open>None\<close>, in the
  order of the list; the empty text is one of them.
\<close>

definition present_values :: "string option list \<Rightarrow> string list" where
  "present_values vs = map the (filter (\<lambda>v. v \<noteq> None) vs)"

text \<open>
  The unique id as the specification words it: with a valid serial, the join of
  those of the manufacturer, the model and the serial that are present; absent
  without one.
\<close>

definition unique_id_of_present_values :: "status_map \<Rightarrow> string option" where
  "unique_id_of_present_values st =
     (if truthy (serial_from_status st)
      then Some (join ''_'' (present_values
             [manufacturer_from_status st, model_from_status st, serial_from_status st]))
      else None)"

text \<open>The fallback keys of each helper, in the order in which it looks them up:\<close>

definition manufacturer_keys :: "string list" where
  "manufacturer_keys = [''device.mfr'', ''ups.mfr'', ''ups.vendorid'', ''driver.version.data'']"

definition model_keys :: "string list" where
  "model_keys = [''device.model'', ''ups.model'', ''ups.productid'']"

definition firmware_keys :: "string list" where
  "firmware_keys = [''ups.firmware'', ''ups.firmware.aux'']"

definition serial_keys :: "string list" where
  "serial_keys = [''device.serial'', ''ups.serial'']"

text \<open>
  What an \<open>or\<close> chain over the lookups of \<open>keys\<close> selects: the first non-empty
  value, and the lookup of the last key when there is none.
\<close>

definition chain_value :: "status_map \<Rightarrow> string list \<Rightarrow> string option" where
  "chain_value st keys =
     (case first_nonempty (map st keys) of
        Some v \<Rightarrow> Some v
      | None \<Rightarrow> st (last keys))"

text \<open>The serials that are no serial: \<open>unknown\<close> in any case, and texts of zeros only.\<close>

definition placeholder_serial :: "string \<Rightarrow> bool" where
  "placeholder_serial s = (lower s = ''unknown'' \<or> (\<forall>c \<in> set s. c = CHR ''0''))"

text \<open>
  The serial as the specification words it: the first present value of
  \<open>device.serial\<close> then \<open>ups.serial\<close>, absent when it is a placeholder.
\<close>

definition serial_first_present :: "status_map \<Rightarrow> string option" where
  "serial_first_present st =
     (case first_present [st ''device.serial'', st ''ups.serial''] of
        None \<Rightarrow> None
      | Some v \<Rightarrow> if placeholder_serial v then None else Some v)"

section \<open>Vocabulary of the specification for the fetcher\<close>

text \<open>
  The interface to the server as the specification gives it: the device list fails
  with a protocol error only, and the variables fail with a protocol error or a
  reset connection only.
\<close>

definition raises_as_specified :: "PyNUTClient \<Rightarrow> bool" where
  "raises_as_specified c =
     ((\<forall>err. list_ups c = Inl err \<longrightarrow> err = PyNUTError)
      \<and> (\<forall>a err. list_vars c a = Inl err \<longrightarrow> err = PyNUTError \<or> err = ConnectionResetError))"

text \<open>A status is empty or absent when it is \<open>None\<close> or the empty dict:\<close>

definition empty_or_absent :: "status_map option \<Rightarrow> bool" where
  "empty_or_absent s = (s = None \<or> s = Some Map.empty)"

section \<open>Concrete fetchers\<close>

text \<open>A server that resets the connection on every request for variables:\<close>

definition resetting_client :: PyNUTClient where
  "resetting_client =
     \<lparr>list_ups = Inr [(''ups1'', ''Rack UPS'')], list_vars = (\<lambda>a. Inl ConnectionResetError)\<rparr>"

text \<open>A server that answers every request with a protocol error:\<close>

definition refusing_client :: PyNUTClient where
  "refusing_client = \<lparr>list_ups = Inl PyNUTError, list_vars = (\<lambda>a. Inl PyNUTError)\<rparr>"

text \<open>A server whose connection is reset on every request:\<close>

definition dropping_client :: PyNUTClient where
  "dropping_client =
     \<lparr>list_ups = Inl ConnectionResetError, list_vars = (\<lambda>a. Inl ConnectionResetError)\<rparr>"

text \<open>A server with one device, online:\<close>

definition online_client :: PyNUTClient where
  "online_client =
     \<lparr>list_ups = Inr [(''ups1'', ''Rack UPS'')],
      list_vars = (\<lambda>a. if a = Some ''ups1''
                         then Inr [''ups.status'' \<mapsto> ''OL'', ''ups.mfr'' \<mapsto> ''APC'']
                         else Inl PyNUTError)\<rparr>"

text \<open>A fetcher with a configured alias that holds a snapshot of an earlier cycle:\<close>

definition fetcher_with_snapshot :: "PyNUTClient \<Rightarrow> PyNUTData" where
  "fetcher_with_snapshot c =
     \<lparr>host = ''10.0.0.2'', ups_alias = Some ''ups1'', client = c,
      ups_list = None, status = Some [''ups.status'' \<mapsto> ''OL'']\<rparr>"

text \<open>A fetcher as the constructor leaves it when no alias is configured:\<close>

definition fresh_fetcher :: "PyNUTClient \<Rightarrow> PyNUTData" where
  "fresh_fetcher c = PyNUTData_init (\<lambda>h p u pw. c) ''10.0.0.2'' ''3493'' None None None"

section \<open>Concrete entries\<close>

text \<open>An instance of the constants, with numbers as the values of the options:\<close>

definition sample_constants :: "nat nut_constants" where
  "sample_constants =
     \<lparr>CONF_ALIAS = ''alias'', CONF_HOST = ''host'', CONF_PASSWORD = ''password'',
      CONF_PORT = ''port'', CONF_RESOURCES = ''resources'',
      CONF_SCAN_INTERVAL = ''scan_interval'', CONF_USERNAME = ''username'',
      DEFAULT_SCAN_INTERVAL = 60, DOMAIN = ''nut'', PLATFORMS = [''sensor'']\<rparr>"

text \<open>An entry that still holds the stale option:\<close>

definition stale_entry :: "nat ConfigEntry" where
  "stale_entry =
     \<lparr>entry_id = ''entry-1'',
      data = [''host'' \<mapsto> ''10.0.0.2'', ''port'' \<mapsto> ''3493''],
      options = [''resources'' \<mapsto> 7, ''scan_interval'' \<mapsto> 30]\<rparr>"

text \<open>A host that holds a handle for \<open>entry-1\<close> and one for \<open>entry-2\<close>:\<close>

definition sample_handle :: "nat \<Rightarrow> nat handle" where
  "sample_handle undo =
     \<lparr>COORDINATOR = \<lparr>coordinator_name = ''NUT resource status'', update_interval = 60,
                     coordinator_data = [''ups.status'' \<mapsto> ''OL'']\<rparr>,
      PYNUT_DATA = fetcher_with_snapshot online_client,
      PYNUT_UNIQUE_ID = ''entry-1'',
      PYNUT_MANUFACTURER = None, PYNUT_MODEL = None, PYNUT_FIRMWARE = None,
      UNDO_UPDATE_LISTENER = undo\<rparr>"

definition loaded_host :: "nat HomeAssistant" where
  "loaded_host =
     \<lparr>domain_data = Some [''entry-1'' \<mapsto> sample_handle 4, ''entry-2'' \<mapsto> sample_handle 5]\<rparr>"

section \<open>Properties of the derivation helpers\<close>

lemma truthy_simps:
  "truthy None = False" "truthy (Some s) = (s \<noteq> [])"
  by (simp_all add: truthy_def)

lemma truthy_iff: "truthy v \<longleftrightarrow> (\<exists>s. v = Some s \<and> s \<noteq> [])"
  by (cases v) (simp_all add: truthy_def)

lemma py_or_simps:
  "py_or None b = b" "py_or (Some []) b = b" "s \<noteq> [] \<Longrightarrow> py_or (Some s) b = Some s"
  by (simp_all add: py_or_def truthy_def)

lemma count_char_all: "count_char s c = length s \<longleftrightarrow> (\<forall>x \<in> set s. x = c)"
proof (induction s)
  case Nil
  show ?case by (simp add: count_char_def)
next
  case (Cons a s)
  have "length (filter (\<lambda>x. x = c) s) \<le> length s" by (rule length_filter_le)
  then have "length (filter (\<lambda>x. x = c) s) \<noteq> Suc (length s)" by arith
  with Cons show ?case by (simp add: count_char_def)
qed

lemma lower_unknown: "lower ''UNKNOWN'' = ''unknown''"
  by (simp add: lower_def lower_char_def char_of_eq_iff)

lemma lower_SN123: "lower ''SN123'' = ''sn123''"
  by (simp add: lower_def lower_char_def char_of_eq_iff)

lemma lower_0000: "lower ''0000'' = ''0000''"
  by (simp add: lower_def lower_char_def)

lemma serial_from_status_chain:
  "serial_from_status st =
     (case first_nonempty [st ''device.serial'', st ''ups.serial''] of
        Some v \<Rightarrow> if placeholder_serial v then None else Some v
      | None \<Rightarrow> st ''ups.serial'')"
  by (cases "st ''device.serial''"; cases "st ''ups.serial''")
     (auto simp: serial_from_status_def py_or_def truthy_def placeholder_serial_def
        count_char_all Let_def)

lemma manufacturer_from_status_chain:
  "manufacturer_from_status st = chain_value st manufacturer_keys"
  by (auto simp: manufacturer_from_status_def chain_value_def manufacturer_keys_def
        py_or_def truthy_def split: option.splits)

lemma model_from_status_chain:
  "model_from_status st = chain_value st model_keys"
  by (auto simp: model_from_status_def chain_value_def model_keys_def
        py_or_def truthy_def split: option.splits)

lemma firmware_from_status_chain:
  "firmware_from_status st = chain_value st firmware_keys"
  by (auto simp: firmware_from_status_def chain_value_def firmware_keys_def
        py_or_def truthy_def split: option.splits)

lemma unique_id_from_status_cases:
  "unique_id_from_status st =
     (if truthy (serial_from_status st)
      then Some (join ''_'' (nonempty_values
             [manufacturer_from_status st, model_from_status st, serial_from_status st]))
      else None)"
proof (cases "truthy (serial_from_status st)")
  case False
  then show ?thesis by (simp add: unique_id_from_status_def)
next
  case True
  then obtain s where s: "serial_from_status st = Some s" "s \<noteq> []"
    by (auto simp: truthy_iff)
  show ?thesis
  proof (cases "manufacturer_from_status st")
    case None
    then show ?thesis
      using s by (cases "model_from_status st")
        (simp_all add: unique_id_from_status_def append_if_def nonempty_values_def truthy_def)
  next
    case (Some m)
    then show ?thesis
      using s by (cases "model_from_status st")
        (simp_all add: unique_id_from_status_def append_if_def nonempty_values_def truthy_def)
  qed
qed

text \<open>
  C1, as the code has it. The unique id of a status from which a valid serial is
  derived (a serial that is a non-empty text) is the join with an underscore of
  those of the manufacturer, the model and the serial that are derived as a
  non-empty text, in this order; a manufacturer or a model that is derived as the
  empty text is left out. Without a valid serial the unique id is absent. So
  manufacturer Acme, model X1 and serial SN123 give \<open>Acme_X1_SN123\<close>, and the
  serial SN123 alone gives \<open>SN123\<close>.
\<close>

theorem unique_id_joins_nonempty_values:
  "(truthy (serial_from_status st) \<longrightarrow>
      unique_id_from_status st =
        Some (join ''_'' (nonempty_values
          [manufacturer_from_status st, model_from_status st, serial_from_status st])))
   \<and> (\<not> truthy (serial_from_status st) \<longrightarrow> unique_id_from_status st = None)
   \<and> (manufacturer_from_status st = Some ''Acme'' \<and> model_from_status st = Some ''X1''
        \<and> serial_from_status st = Some ''SN123'' \<longrightarrow>
      unique_id_from_status st = Some ''Acme_X1_SN123'')
   \<and> (\<not> truthy (manufacturer_from_status st) \<and> \<not> truthy (model_from_status st)
        \<and> serial_from_status st = Some ''SN123'' \<longrightarrow>
      unique_id_from_status st = Some ''SN123'')"
  by (simp add: unique_id_from_status_cases nonempty_values_def truthy_def)

theorem unique_id_joins_nonempty_values_witness:
  "unique_id_from_status
     [''device.mfr'' \<mapsto> ''Acme'', ''device.model'' \<mapsto> ''X1'', ''device.serial'' \<mapsto> ''SN123'']
     = Some ''Acme_X1_SN123''
   \<and> unique_id_from_status [''ups.serial'' \<mapsto> ''SN123''] = Some ''SN123''
   \<and> unique_id_from_status [''device.mfr'' \<mapsto> ''Acme'', ''device.serial'' \<mapsto> ''0000''] = None"
proof -
  let ?full = "[''device.mfr'' \<mapsto> ''Acme'', ''device.model'' \<mapsto> ''X1'',
                ''device.serial'' \<mapsto> ''SN123'']"
  let ?only = "[''ups.serial'' \<mapsto> ''SN123'']"
  let ?zero = "[''device.mfr'' \<mapsto> ''Acme'', ''device.serial'' \<mapsto> ''0000'']"
  have full: "manufacturer_from_status ?full = Some ''Acme''"
    "model_from_status ?full = Some ''X1''" "serial_from_status ?full = Some ''SN123''"
    by (simp_all add: manufacturer_from_status_def model_from_status_def
          serial_from_status_def py_or_def truthy_def lower_SN123 count_char_def)
  have only: "\<not> truthy (manufacturer_from_status ?only)"
    "\<not> truthy (model_from_status ?only)" "serial_from_status ?only = Some ''SN123''"
    by (simp_all add: manufacturer_from_status_def model_from_status_def
          serial_from_status_def py_or_def truthy_def lower_SN123 count_char_def)
  have zero: "\<not> truthy (serial_from_status ?zero)"
    by (simp add: serial_from_status_def py_or_def truthy_def count_char_def)
  show ?thesis
    using unique_id_joins_nonempty_values [of ?full] unique_id_joins_nonempty_values [of ?only]
      unique_id_joins_nonempty_values [of ?zero] full only zero
    by simp
qed

text \<open>
  C1, as it is worded, fails for a status whose keys are \<open>driver.version.data\<close> with
  the empty text and \<open>ups.serial\<close> with S. The manufacturer is derived as the empty
  text, which is a value and not absence, so the join of the values that are present
  is \<open>_S\<close>; the unique id is \<open>S\<close>.
\<close>

theorem unique_id_leaves_out_empty_manufacturer:
  "manufacturer_from_status [''driver.version.data'' \<mapsto> [], ''ups.serial'' \<mapsto> ''S''] = Some []
   \<and> model_from_status [''driver.version.data'' \<mapsto> [], ''ups.serial'' \<mapsto> ''S''] = None
   \<and> serial_from_status [''driver.version.data'' \<mapsto> [], ''ups.serial'' \<mapsto> ''S''] = Some ''S''
   \<and> unique_id_of_present_values [''driver.version.data'' \<mapsto> [], ''ups.serial'' \<mapsto> ''S'']
       = Some ''_S''
   \<and> unique_id_from_status [''driver.version.data'' \<mapsto> [], ''ups.serial'' \<mapsto> ''S'']
       = Some ''S''
   \<and> unique_id_from_status [''driver.version.data'' \<mapsto> [], ''ups.serial'' \<mapsto> ''S'']
       \<noteq> unique_id_of_present_values [''driver.version.data'' \<mapsto> [], ''ups.serial'' \<mapsto> ''S'']"
proof -
  let ?st = "[''driver.version.data'' \<mapsto> [], ''ups.serial'' \<mapsto> ''S'']"
  have lower_S: "lower ''S'' = ''s''"
    by (simp add: lower_def lower_char_def char_of_eq_iff)
  have derived: "manufacturer_from_status ?st = Some []" "model_from_status ?st = None"
    "serial_from_status ?st = Some ''S''"
    by (simp_all add: manufacturer_from_status_def model_from_status_def
          serial_from_status_def py_or_def truthy_def lower_S count_char_def)
  have worded: "unique_id_of_present_values ?st = Some ''_S''"
    by (simp add: unique_id_of_present_values_def derived present_values_def truthy_def)
  have coded: "unique_id_from_status ?st = Some ''S''"
    by (simp add: unique_id_from_status_def derived append_if_def truthy_def)
  from derived worded coded show ?thesis by simp
qed

text \<open>
  C2, as the code has it. The serial is taken from the first non-empty value of
  \<open>device.serial\<close> then \<open>ups.serial\<close>; a key that is present with the empty text
  is passed over. When that value equals \<open>unknown\<close> in lower case or consists of
  the character 0 only, the serial is absent, and otherwise it is that value. When
  neither key has a non-empty value, the serial is the lookup of \<open>ups.serial\<close>.
  In particular 0000 and UNKNOWN give no serial, and SN123 gives SN123.
\<close>

theorem serial_from_first_nonempty_value:
  "serial_from_status st =
     (case first_nonempty [st ''device.serial'', st ''ups.serial''] of
        Some v \<Rightarrow>
          if lower v = ''unknown'' \<or> (\<forall>c \<in> set v. c = CHR ''0'') then None else Some v
      | None \<Rightarrow> st ''ups.serial'')
   \<and> (first_nonempty [st ''device.serial'', st ''ups.serial''] = Some ''0000'' \<longrightarrow>
        serial_from_status st = None)
   \<and> (first_nonempty [st ''device.serial'', st ''ups.serial''] = Some ''UNKNOWN'' \<longrightarrow>
        serial_from_status st = None)
   \<and> (first_nonempty [st ''device.serial'', st ''ups.serial''] = Some ''SN123'' \<longrightarrow>
        serial_from_status st = Some ''SN123'')"
proof -
  let ?v = "first_nonempty [st ''device.serial'', st ''ups.serial'']"
  have main: "serial_from_status st =
     (case ?v of
        Some v \<Rightarrow>
          if lower v = ''unknown'' \<or> (\<forall>c \<in> set v. c = CHR ''0'') then None else Some v
      | None \<Rightarrow> st ''ups.serial'')"
    unfolding serial_from_status_chain placeholder_serial_def by (rule refl)
  have zeros: "?v = Some ''0000'' \<longrightarrow> serial_from_status st = None"
    using main by (simp del: first_nonempty.simps)
  have unknown: "?v = Some ''UNKNOWN'' \<longrightarrow> serial_from_status st = None"
    using main by (simp del: first_nonempty.simps add: lower_unknown)
  have sn: "?v = Some ''SN123'' \<longrightarrow> serial_from_status st = Some ''SN123''"
    using main by (simp del: first_nonempty.simps add: lower_SN123)
  from main zeros unknown sn show ?thesis by blast
qed

theorem serial_from_first_nonempty_value_witness:
  "serial_from_status [''device.serial'' \<mapsto> ''0000''] = None
   \<and> serial_from_status [''ups.serial'' \<mapsto> ''UNKNOWN''] = None
   \<and> serial_from_status [''device.serial'' \<mapsto> ''SN123'', ''ups.serial'' \<mapsto> ''0000'']
       = Some ''SN123''"
  using serial_from_first_nonempty_value [of "[''device.serial'' \<mapsto> ''0000'']"]
    serial_from_first_nonempty_value [of "[''ups.serial'' \<mapsto> ''UNKNOWN'']"]
    serial_from_first_nonempty_value
      [of "[''device.serial'' \<mapsto> ''SN123'', ''ups.serial'' \<mapsto> ''0000'']"]
  by (simp add: truthy_def lower_unknown lower_SN123)

text \<open>
  C2, as the specification words it, fails where \<open>device.serial\<close> is present with the
  empty text and \<open>ups.serial\<close> is SN123: the first present value is the empty text,
  and the code returns SN123, which is neither that value nor absence.
\<close>

theorem serial_passes_over_empty_device_serial:
  "first_present
     [[''device.serial'' \<mapsto> [], ''ups.serial'' \<mapsto> ''SN123''] ''device.serial'',
      [''device.serial'' \<mapsto> [], ''ups.serial'' \<mapsto> ''SN123''] ''ups.serial''] = Some []
   \<and> serial_from_status [''device.serial'' \<mapsto> [], ''ups.serial'' \<mapsto> ''SN123'']
       = Some ''SN123''
   \<and> serial_first_present [''device.serial'' \<mapsto> [], ''ups.serial'' \<mapsto> ''SN123'']
       \<noteq> serial_from_status [''device.serial'' \<mapsto> [], ''ups.serial'' \<mapsto> ''SN123'']"
  by (simp add: serial_from_status_chain serial_first_present_def placeholder_serial_def
        lower_SN123 truthy_def)

text \<open>
  C4, as the code has it. For every status that maps \<open>device.mfr\<close> to a non-empty
  text, the manufacturer is exactly that text, whatever the other fields are.
\<close>

theorem manufacturer_is_nonempty_device_mfr:
  "st ''device.mfr'' = Some v \<Longrightarrow> v \<noteq> [] \<Longrightarrow> manufacturer_from_status st = Some v"
  by (simp add: manufacturer_from_status_def py_or_def truthy_def)

theorem manufacturer_is_nonempty_device_mfr_witness:
  "manufacturer_from_status
     [''device.mfr'' \<mapsto> ''Acme'', ''ups.mfr'' \<mapsto> ''APC'', ''ups.vendorid'' \<mapsto> ''051d'']
   = Some ''Acme''"
  using manufacturer_is_nonempty_device_mfr
    [of "[''device.mfr'' \<mapsto> ''Acme'', ''ups.mfr'' \<mapsto> ''APC'', ''ups.vendorid'' \<mapsto> ''051d'']"
        "''Acme''"]
  by simp

text \<open>
  C4, as the specification words it, fails for a status that contains the key
  \<open>device.mfr\<close> with the empty text and \<open>ups.mfr\<close> with APC: the manufacturer is
  APC, not the value stored under \<open>device.mfr\<close>.
\<close>

theorem manufacturer_not_empty_device_mfr:
  "[''device.mfr'' \<mapsto> [], ''ups.mfr'' \<mapsto> ''APC''] ''device.mfr'' = Some []
   \<and> manufacturer_from_status [''device.mfr'' \<mapsto> [], ''ups.mfr'' \<mapsto> ''APC''] = Some ''APC''
   \<and> manufacturer_from_status [''device.mfr'' \<mapsto> [], ''ups.mfr'' \<mapsto> ''APC'']
       \<noteq> [''device.mfr'' \<mapsto> [], ''ups.mfr'' \<mapsto> ''APC''] ''device.mfr''"
  by (simp add: manufacturer_from_status_def py_or_def truthy_def)

text \<open>
  C10, as the code has it. A fallback key that is present with the empty text is
  passed over: the manufacturer, the model and the firmware are the first non-empty
  value of their chains, and the serial is the first non-empty value of its chain
  unless that value is a placeholder, which gives absence. When no key of the chain
  has a non-empty value, the helper returns the lookup of the last key of its chain:
  absence when that key is missing, and the empty text when it is present with the
  empty text. So \<open>device.mfr\<close> empty and \<open>ups.mfr\<close> X give the manufacturer X.
\<close>

theorem helpers_pass_over_empty_values:
  "manufacturer_from_status st =
     (case first_nonempty (map st manufacturer_keys) of
        Some v \<Rightarrow> Some v
      | None \<Rightarrow> st ''driver.version.data'')
   \<and> model_from_status st =
     (case first_nonempty (map st model_keys) of
        Some v \<Rightarrow> Some v
      | None \<Rightarrow> st ''ups.productid'')
   \<and> firmware_from_status st =
     (case first_nonempty (map st firmware_keys) of
        Some v \<Rightarrow> Some v
      | None \<Rightarrow> st ''ups.firmware.aux'')
   \<and> serial_from_status st =
     (case first_nonempty (map st serial_keys) of
        Some v \<Rightarrow> if placeholder_serial v then None else Some v
      | None \<Rightarrow> st ''ups.serial'')
   \<and> (st ''device.mfr'' = Some [] \<and> st ''ups.mfr'' = Some ''X'' \<longrightarrow>
        manufacturer_from_status st = Some ''X'')"
proof -
  have last_keys: "last manufacturer_keys = ''driver.version.data''"
    "last model_keys = ''ups.productid''" "last firmware_keys = ''ups.firmware.aux''"
    by (simp_all add: manufacturer_keys_def model_keys_def firmware_keys_def)
  have manufacturer: "manufacturer_from_status st =
     (case first_nonempty (map st manufacturer_keys) of
        Some v \<Rightarrow> Some v
      | None \<Rightarrow> st ''driver.version.data'')"
    unfolding manufacturer_from_status_chain chain_value_def last_keys by (rule refl)
  have model: "model_from_status st =
     (case first_nonempty (map st model_keys) of
        Some v \<Rightarrow> Some v
      | None \<Rightarrow> st ''ups.productid'')"
    unfolding model_from_status_chain chain_value_def last_keys by (rule refl)
  have firmware: "firmware_from_status st =
     (case first_nonempty (map st firmware_keys) of
        Some v \<Rightarrow> Some v
      | None \<Rightarrow> st ''ups.firmware.aux'')"
    unfolding firmware_from_status_chain chain_value_def last_keys by (rule refl)
  have serial: "serial_from_status st =
     (case first_nonempty (map st serial_keys) of
        Some v \<Rightarrow> if placeholder_serial v then None else Some v
      | None \<Rightarrow> st ''ups.serial'')"
    unfolding serial_from_status_chain serial_keys_def list.map by (rule refl)
  have example: "st ''device.mfr'' = Some [] \<and> st ''ups.mfr'' = Some ''X'' \<longrightarrow>
        manufacturer_from_status st = Some ''X''"
    by (simp add: manufacturer_from_status_def py_or_def truthy_def)
  from manufacturer model firmware serial example show ?thesis by blast
qed

theorem helpers_pass_over_empty_values_witness:
  "manufacturer_from_status [''device.mfr'' \<mapsto> [], ''ups.mfr'' \<mapsto> ''X''] = Some ''X''
   \<and> model_from_status [''device.model'' \<mapsto> [], ''ups.productid'' \<mapsto> ''0002''] = Some ''0002''
   \<and> firmware_from_status [''ups.firmware'' \<mapsto> []] = None
   \<and> serial_from_status [''device.serial'' \<mapsto> [], ''ups.serial'' \<mapsto> ''0000''] = None"
  using helpers_pass_over_empty_values [of "[''device.mfr'' \<mapsto> [], ''ups.mfr'' \<mapsto> ''X'']"]
    helpers_pass_over_empty_values [of "[''device.model'' \<mapsto> [], ''ups.productid'' \<mapsto> ''0002'']"]
    helpers_pass_over_empty_values [of "[''ups.firmware'' \<mapsto> []]"]
    helpers_pass_over_empty_values [of "[''device.serial'' \<mapsto> [], ''ups.serial'' \<mapsto> ''0000'']"]
  by (simp add: manufacturer_keys_def model_keys_def firmware_keys_def serial_keys_def
        truthy_def placeholder_serial_def)

text \<open>
  C10, as it is worded, fails for a status whose only key is \<open>driver.version.data\<close>
  with the empty text: no key of the manufacturer's chain has a non-empty value, and
  the manufacturer is the empty text, not absence. It also fails for the serial of a
  status with \<open>device.serial\<close> empty and \<open>ups.serial\<close> 0000: the next non-empty
  value of the chain is 0000, and the serial is absent.
\<close>

theorem manufacturer_empty_text_not_absent:
  "first_nonempty (map [''driver.version.data'' \<mapsto> []] manufacturer_keys) = None
   \<and> manufacturer_from_status [''driver.version.data'' \<mapsto> []] = Some []
   \<and> manufacturer_from_status [''driver.version.data'' \<mapsto> []] \<noteq> None
   \<and> first_nonempty (map [''device.serial'' \<mapsto> [], ''ups.serial'' \<mapsto> ''0000''] serial_keys)
       = Some ''0000''
   \<and> serial_from_status [''device.serial'' \<mapsto> [], ''ups.serial'' \<mapsto> ''0000''] = None"
  by (simp add: manufacturer_from_status_def manufacturer_keys_def serial_keys_def
        serial_from_status_def count_char_def py_or_def truthy_def)

section \<open>Properties of the data fetcher\<close>

lemma get_alias_client: "get_alias d = (evs, d', r) \<Longrightarrow> client d' = client d"
  by (auto simp: get_alias_def split: sum.splits list.splits if_splits)

lemma update_returns:
  assumes "raises_as_specified (client d)"
  shows "\<exists>evs d'. update d = (evs, d', None)"
proof -
  from assms have ups: "\<And>err. list_ups (client d) = Inl err \<Longrightarrow> err = PyNUTError"
    and vars: "\<And>a err. list_vars (client d) a = Inl err \<Longrightarrow>
                 err = PyNUTError \<or> err = ConnectionResetError"
    by (auto simp: raises_as_specified_def)
  obtain evs d1 r where ga: "get_alias d = (evs, d1, r)"
    by (cases "get_alias d") auto
  have r: "\<exists>a. r = Inr a"
    using ga ups by (auto simp: get_alias_def split: sum.splits list.splits if_splits)
  have c1: "client d1 = client d" using ga by (rule get_alias_client)
  show ?thesis
  proof (cases "ups_alias d")
    case None
    from r obtain a where a: "r = Inr a" ..
    show ?thesis
    proof (cases "list_vars (client d) a")
      case (Inl err)
      with vars have "err = PyNUTError \<or> err = ConnectionResetError" by blast
      with None ga a c1 Inl show ?thesis
        by (auto simp: update_def get_status_def)
    next
      case (Inr v)
      with None ga a c1 show ?thesis
        by (auto simp: update_def get_status_def)
    qed
  next
    case (Some al)
    show ?thesis
    proof (cases "list_vars (client d) (Some al)")
      case (Inl err)
      with vars have "err = PyNUTError \<or> err = ConnectionResetError" by blast
      with Some Inl show ?thesis
        by (auto simp: update_def get_status_def)
    next
      case (Inr v)
      with Some show ?thesis
        by (auto simp: update_def get_status_def)
    qed
  qed
qed

text \<open>
  C3. Whatever the state of the fetcher, when the request for the variables that an
  update sends raises a protocol error or a reset connection, the update returns
  and the status after it is absent: the snapshot held before is not kept.
\<close>

theorem failed_variable_request_clears_status:
  assumes "update d = (evs, d', r)"
    and "Request (ListVars a) \<in> set evs"
    and "list_vars (client d) a = Inl err"
    and "err = PyNUTError \<or> err = ConnectionResetError"
  shows "status d' = None \<and> r = None"
  using assms
  by (auto simp: update_def get_status_def get_alias_def
      split: if_splits sum.splits option.splits list.splits prod.splits)

theorem failed_variable_request_clears_status_witness:
  "status (fetcher_with_snapshot resetting_client) = Some [''ups.status'' \<mapsto> ''OL'']
   \<and> status (fst (snd (update (fetcher_with_snapshot resetting_client)))) = None
   \<and> snd (snd (update (fetcher_with_snapshot resetting_client))) = None"
proof -
  let ?d = "fetcher_with_snapshot resetting_client"
  have run: "update ?d = (fst (update ?d), fst (snd (update ?d)), snd (snd (update ?d)))"
    by simp
  have sent: "Request (ListVars (Some ''ups1'')) \<in> set (fst (update ?d))"
    by (simp add: update_def get_status_def fetcher_with_snapshot_def resetting_client_def)
  have raised: "list_vars (client ?d) (Some ''ups1'') = Inl ConnectionResetError"
    by (simp add: fetcher_with_snapshot_def resetting_client_def)
  have "status (fst (snd (update ?d))) = None \<and> snd (snd (update ?d)) = None"
    using failed_variable_request_clears_status [OF run sent raised] by simp
  then show ?thesis by (simp add: fetcher_with_snapshot_def)
qed

text \<open>
  C9. When no alias is configured, the first request of an update is the one for the
  device list, and the request for the variables, when the update sends it, comes
  after it. When the request for the device list raises a protocol error or returns
  an empty list, the alias is still unset after the update (and the variables are
  requested without an alias).
\<close>

theorem update_without_alias_lists_devices_first:
  assumes "ups_alias d = None"
    and "update d = (evs, d', r)"
  shows "(requests evs = [ListUps, ListVars (ups_alias d')] \<or> requests evs = [ListUps])
    \<and> (list_ups (client d) = Inl PyNUTError \<or> list_ups (client d) = Inr [] \<longrightarrow>
         ups_alias d' = None \<and> requests evs = [ListUps, ListVars None])"
  using assms
  by (auto simp: update_def get_status_def get_alias_def
      split: if_splits sum.splits option.splits list.splits prod.splits)

theorem update_without_alias_lists_devices_first_witness:
  "ups_alias (fresh_fetcher refusing_client) = None
   \<and> requests (fst (update (fresh_fetcher refusing_client))) = [ListUps, ListVars None]
   \<and> ups_alias (fst (snd (update (fresh_fetcher refusing_client)))) = None"
proof -
  let ?d = "fresh_fetcher refusing_client"
  have unset: "ups_alias ?d = None"
    by (simp add: fresh_fetcher_def PyNUTData_init_def)
  have run: "update ?d = (fst (update ?d), fst (snd (update ?d)), snd (snd (update ?d)))"
    by simp
  have refused: "list_ups (client ?d) = Inl PyNUTError"
    by (simp add: fresh_fetcher_def PyNUTData_init_def refusing_client_def)
  show ?thesis
    using update_without_alias_lists_devices_first [OF unset run] refused unset by simp
qed

lemma update_job_times_out:
  "snd (snd (async_update_data True d)) = Inl TimeoutError"
  by (simp add: async_update_data_def split: prod.splits)

text \<open>
  C6, as the code has it. In every poll cycle in which the update of the fetcher
  does not outlast the bound of the job and returns, the job raises the
  update-failed condition if and only if the status of the fetcher after the update
  is empty or absent, and when that status is not empty the job returns it. By
  \<open>update_returns\<close> the update returns in every cycle against a server that raises
  as specified. In a cycle in which the update outlasts the bound, the job raises
  \<open>TimeoutError\<close> (\<open>update_job_times_out\<close>).
\<close>

theorem update_job_fails_iff_status_empty:
  assumes "\<not> outlasts"
    and "update d = (evs, d', None)"
  shows "((\<exists>msg. snd (snd (async_update_data outlasts d)) = Inl (UpdateFailed msg))
            \<longleftrightarrow> empty_or_absent (status d'))
    \<and> (\<forall>st. status d' = Some st \<and> st \<noteq> Map.empty \<longrightarrow>
           async_update_data outlasts d = (evs, d', Inr st))
    \<and> fst (snd (async_update_data outlasts d)) = d'"
  using assms
  by (auto simp: async_update_data_def empty_or_absent_def split: option.splits)

theorem update_job_fails_iff_status_empty_witness:
  "snd (snd (async_update_data False (fetcher_with_snapshot resetting_client)))
     = Inl (UpdateFailed ''Error fetching UPS state'')
   \<and> status (fst (snd (async_update_data False (fetcher_with_snapshot resetting_client)))) = None
   \<and> snd (snd (async_update_data False (fresh_fetcher online_client)))
     = Inr [''ups.status'' \<mapsto> ''OL'', ''ups.mfr'' \<mapsto> ''APC'']"
proof -
  let ?d = "fetcher_with_snapshot resetting_client"
  let ?e = "fresh_fetcher online_client"
  let ?st = "[''ups.status'' \<mapsto> ''OL'', ''ups.mfr'' \<mapsto> ''APC'']"
  have run_d: "update ?d =
      ([Request (ListVars (Some ''ups1'')), Log DEBUG ''Error getting NUT vars for host %s: %s''],
       ?d\<lparr>status := None\<rparr>, None)"
    by (simp add: update_def get_status_def fetcher_with_snapshot_def resetting_client_def)
  have run_e: "update ?e =
      ([Request ListUps, Request (ListVars (Some ''ups1''))],
       ?e\<lparr>ups_list := Some [(''ups1'', ''Rack UPS'')], ups_alias := Some ''ups1'',
           status := Some ?st\<rparr>, None)"
    by (simp add: update_def get_status_def get_alias_def fresh_fetcher_def
          PyNUTData_init_def online_client_def)
  have nonempty: "?st \<noteq> Map.empty" by simp
  have within: "\<not> False" by simp
  have d: "\<exists>msg. snd (snd (async_update_data False ?d)) = Inl (UpdateFailed msg)"
    using update_job_fails_iff_status_empty [OF within run_d] by (simp add: empty_or_absent_def)
  have d_state: "status (fst (snd (async_update_data False ?d))) = None"
    using update_job_fails_iff_status_empty [OF within run_d] by simp
  have e: "snd (snd (async_update_data False ?e)) = Inr ?st"
    using update_job_fails_iff_status_empty [OF within run_e] nonempty by simp
  from d have "snd (snd (async_update_data False ?d)) = Inl (UpdateFailed ''Error fetching UPS state'')"
    by (auto simp: async_update_data_def split: prod.splits option.splits if_splits)
  with d_state e show ?thesis by simp
qed

text \<open>
  C6, as it is worded, fails in a cycle in which the update itself raises, even
  within the bound of the job. With no alias configured and no status yet, a reset
  connection during the request for the device list is not caught: it leaves the
  update and the job. The status is absent, and the job raises the reset connection,
  not the update-failed condition.
\<close>

theorem update_job_raises_uncaught_exception:
  "empty_or_absent (status (fst (snd (async_update_data False (fresh_fetcher dropping_client)))))
   \<and> snd (snd (async_update_data False (fresh_fetcher dropping_client)))
       = Inl (Raised ConnectionResetError)
   \<and> snd (snd (async_update_data False (fresh_fetcher dropping_client)))
       \<noteq> Inl (UpdateFailed ''Error fetching UPS state'')"
  by (simp add: async_update_data_def update_def get_status_def get_alias_def
        fresh_fetcher_def PyNUTData_init_def dropping_client_def empty_or_absent_def)

section \<open>Properties of the lifecycle adapter\<close>

lemma strip_stale_options_entry:
  "snd (strip_stale_options k entry) =
     entry\<lparr>options := (\<lambda>key. if key \<noteq> CONF_RESOURCES k then options entry key else None)\<rparr>"
proof (cases "options entry (CONF_RESOURCES k)")
  case None
  then have "(\<lambda>key. if key \<noteq> CONF_RESOURCES k then options entry key else None) = options entry"
    by auto
  with None show ?thesis by (simp add: strip_stale_options_def)
next
  case (Some v)
  then show ?thesis by (simp add: strip_stale_options_def async_update_entry_def Let_def)
qed

lemma async_setup_entry_entry:
  "fst (snd (snd (async_setup_entry k connect undo outlasts hass entry))) = snd (strip_stale_options k entry)"
  by (cases "strip_stale_options k entry")
     (simp add: async_setup_entry_def Let_def split: option.splits prod.splits sum.splits)

text \<open>
  C5. The migration that setup performs on the options is idempotent: migrating the
  migrated entry gives the same entry, and so the same options, as migrating once,
  and calls the host no more. Every key other than the stale key keeps its value, and
  the stale key is gone. The entry that setup leaves is the migrated one.
\<close>

theorem stale_options_migration_idempotent:
  "snd (strip_stale_options k (snd (strip_stale_options k entry)))
     = snd (strip_stale_options k entry)
   \<and> options (snd (strip_stale_options k (snd (strip_stale_options k entry))))
     = options (snd (strip_stale_options k entry))
   \<and> fst (strip_stale_options k (snd (strip_stale_options k entry))) = []
   \<and> (\<forall>key. key \<noteq> CONF_RESOURCES k \<longrightarrow>
         options (snd (strip_stale_options k entry)) key = options entry key)
   \<and> options (snd (strip_stale_options k entry)) (CONF_RESOURCES k) = None
   \<and> fst (snd (snd (async_setup_entry k connect undo outlasts hass entry)))
     = snd (strip_stale_options k entry)"
proof -
  let ?once = "snd (strip_stale_options k entry)"
  have gone: "options ?once (CONF_RESOURCES k) = None"
    by (simp add: strip_stale_options_entry)
  then have again: "strip_stale_options k ?once = ([], ?once)"
    by (simp add: strip_stale_options_def)
  have kept: "\<forall>key. key \<noteq> CONF_RESOURCES k \<longrightarrow> options ?once key = options entry key"
    by (simp add: strip_stale_options_entry)
  from gone again kept show ?thesis
    by (simp add: async_setup_entry_entry)
qed

theorem stale_options_migration_idempotent_witness:
  "options (snd (strip_stale_options sample_constants stale_entry)) ''resources'' = None
   \<and> options (snd (strip_stale_options sample_constants stale_entry)) ''scan_interval'' = Some 30
   \<and> options (snd (strip_stale_options sample_constants
        (snd (strip_stale_options sample_constants stale_entry)))) ''scan_interval'' = Some 30"
proof -
  have key: "CONF_RESOURCES sample_constants = ''resources''"
    by (simp add: sample_constants_def)
  have other: "''scan_interval'' \<noteq> CONF_RESOURCES sample_constants"
    by (simp add: sample_constants_def)
  have before: "options stale_entry ''scan_interval'' = Some 30"
    by (simp add: stale_entry_def)
  show ?thesis
    using stale_options_migration_idempotent [of sample_constants stale_entry] key other before
    by simp
qed

lemma setup_stores_handle:
  assumes "async_setup_entry k connect undo outlasts hass entry = (evs, hass', entry', Inr ok)"
  shows "\<exists>store h. domain_data hass' = Some store \<and> store (entry_id entry) = Some h
           \<and> UNDO_UPDATE_LISTENER h = undo"
proof -
  obtain evs0 entry1 where strip: "strip_stale_options k entry = (evs0, entry1)"
    by (cases "strip_stale_options k entry") auto
  then have "entry1 = snd (strip_stale_options k entry)" by simp
  then have same: "entry_id entry1 = entry_id entry"
    by (simp add: strip_stale_options_entry)
  show ?thesis
    using assms strip same
    by (auto simp: async_setup_entry_def Let_def split: option.splits prod.splits sum.splits)
qed

text \<open>
  C7. When the host holds a handle for the entry, as it does after a setup that
  succeeded (\<open>setup_stores_handle\<close>), unloading calls the callable that
  deregisters the options listener whether the teardown of the platforms succeeded
  or not, returns what the teardown returned, removes the handle of the entry from
  the store if and only if the teardown succeeded, and leaves the handles of all
  other entries as they were.
\<close>

theorem unload_always_deregisters_listener:
  assumes "domain_data hass = Some store"
    and "store (entry_id entry) = Some h"
  shows "CallUndoListener (UNDO_UPDATE_LISTENER h)
           \<in> set (fst (async_unload_entry k unload_ok hass entry))
    \<and> snd (snd (async_unload_entry k unload_ok hass entry)) = Inr unload_ok
    \<and> (\<exists>store'. domain_data (fst (snd (async_unload_entry k unload_ok hass entry))) = Some store'
          \<and> (store' (entry_id entry) = None \<longleftrightarrow> unload_ok)
          \<and> (\<forall>other. other \<noteq> entry_id entry \<longrightarrow> store' other = store other))"
  using assms by (simp add: async_unload_entry_def)

theorem unload_always_deregisters_listener_witness:
  "CallUndoListener 4 \<in> set (fst (async_unload_entry sample_constants False loaded_host stale_entry))
   \<and> CallUndoListener 4 \<in> set (fst (async_unload_entry sample_constants True loaded_host stale_entry))
   \<and> snd (snd (async_unload_entry sample_constants False loaded_host stale_entry)) = Inr False
   \<and> snd (snd (async_unload_entry sample_constants True loaded_host stale_entry)) = Inr True"
proof -
  let ?store = "[''entry-1'' \<mapsto> sample_handle 4, ''entry-2'' \<mapsto> sample_handle 5]"
  have held: "domain_data loaded_host = Some ?store"
    by (simp add: loaded_host_def)
  have handle: "?store (entry_id stale_entry) = Some (sample_handle 4)"
    by (simp add: stale_entry_def)
  have undo: "UNDO_UPDATE_LISTENER (sample_handle 4) = 4"
    by (simp add: sample_handle_def)
  show ?thesis
    using unload_always_deregisters_listener [OF held handle, of sample_constants False]
      unload_always_deregisters_listener [OF held handle, of sample_constants True] undo
    by simp
qed

lemma sample_status_no_unique_id:
  "unique_id_from_status [''ups.status'' \<mapsto> ''OL'', ''ups.mfr'' \<mapsto> ''APC''] = None"
  by (simp add: unique_id_from_status_def serial_from_status_def py_or_def truthy_def)

text \<open>
  C8. When the entry names a host and a port, the first refresh of the fetcher built
  from the entry returns a status, and no unique id is derived from that status,
  setup does not fail: it returns \<open>True\<close>, and the unique id in the handle stored
  under the id of the entry is the id of the entry.
\<close>

theorem setup_falls_back_to_entry_id:
  assumes "data entry (CONF_HOST k) = Some host_value"
    and "data entry (CONF_PORT k) = Some port"
    and "async_update_data outlasts
           (PyNUTData_init connect host_value port (data entry (CONF_ALIAS k))
              (data entry (CONF_USERNAME k)) (data entry (CONF_PASSWORD k)))
         = (evs, d1, Inr st)"
    and "unique_id_from_status st = None"
  shows "\<exists>evs' hass' entry' store' h.
           async_setup_entry k connect undo outlasts hass entry = (evs', hass', entry', Inr True)
           \<and> domain_data hass' = Some store'
           \<and> store' (entry_id entry) = Some h
           \<and> PYNUT_UNIQUE_ID h = entry_id entry
           \<and> PYNUT_DATA h = d1"
proof -
  obtain evs0 entry1 where strip: "strip_stale_options k entry = (evs0, entry1)"
    by (cases "strip_stale_options k entry") auto
  then have "entry1 = snd (strip_stale_options k entry)" by simp
  then have same: "data entry1 = data entry" "entry_id entry1 = entry_id entry"
    by (simp_all add: strip_stale_options_entry)
  show ?thesis
    using assms strip same
    by (simp add: async_setup_entry_def async_config_entry_first_refresh_def Let_def)
qed

theorem setup_falls_back_to_entry_id_witness:
  "snd (snd (snd (async_setup_entry sample_constants (\<lambda>h p u pw. online_client) 4 False
      \<lparr>domain_data = None\<rparr> stale_entry))) = Inr True
   \<and> map_option PYNUT_UNIQUE_ID
       (case domain_data (fst (snd (async_setup_entry sample_constants
               (\<lambda>h p u pw. online_client) 4 False \<lparr>domain_data = None\<rparr> stale_entry))) of
          None \<Rightarrow> None
        | Some store' \<Rightarrow> store' ''entry-1'')
     = Some ''entry-1''"
proof -
  let ?connect = "\<lambda>h p u pw. online_client" 
  let ?st = "[''ups.status'' \<mapsto> ''OL'', ''ups.mfr'' \<mapsto> ''APC'']"
  let ?d0 = "PyNUTData_init ?connect ''10.0.0.2'' ''3493''
               (data stale_entry (CONF_ALIAS sample_constants))
               (data stale_entry (CONF_USERNAME sample_constants))
               (data stale_entry (CONF_PASSWORD sample_constants))"
  have host_value: "data stale_entry (CONF_HOST sample_constants) = Some ''10.0.0.2''"
    by (simp add: stale_entry_def sample_constants_def)
  have port: "data stale_entry (CONF_PORT sample_constants) = Some ''3493''"
    by (simp add: stale_entry_def sample_constants_def)
  have refresh: "async_update_data False ?d0 =
      (fst (async_update_data False ?d0), fst (snd (async_update_data False ?d0)), Inr ?st)"
    by (simp add: async_update_data_def update_def get_status_def get_alias_def
          PyNUTData_init_def online_client_def stale_entry_def sample_constants_def)
  have id: "entry_id stale_entry = ''entry-1''"
    by (simp add: stale_entry_def)
  show ?thesis
    using setup_falls_back_to_entry_id
      [OF host_value port refresh sample_status_no_unique_id, of 4 "\<lparr>domain_data = None\<rparr>"] id
    by auto
qed

end
